theory Spec2Isabelle
  imports Main "HOL-Library.Sublist"
begin

section \<open>JSON values as the JavaScript code sees them\<close>

text \<open>
  The server parses the request body with \<^verbatim>\<open>express.json()\<close>, so every value the
  compiler touches is a JSON value. \<open>JNum n\<close> stands for the JSON number with the
  integer value \<open>n\<close>, for the integers that JavaScript holds exactly and prints in
  plain decimal (\<open>safe_integer\<close> below); non-integral numbers have no counterpart
  here. A property that is absent reads as JavaScript's \<^verbatim>\<open>undefined\<close>, which is
  \<open>None\<close> below.
  Strings are lists of characters; the code never inspects their characters, apart
  from \<^verbatim>\<open>trim\<close> on the generated style text.
\<close>

datatype json =
    JNull
  | JBool bool
  | JNum int
  | JStr string
  | JArr "json list"
  | JObj "(string \<times> json) list"

datatype error =
    TypeError
  | BrowserError string

abbreviation nl :: string where
  "nl \<equiv> [CHR 0x0A]"

abbreviation dq :: string where
  "dq \<equiv> [CHR 0x22]"

definition bind :: "error + 'a \<Rightarrow> ('a \<Rightarrow> error + 'b) \<Rightarrow> error + 'b" where
  "bind r f = (case r of Inl e \<Rightarrow> Inl e | Inr v \<Rightarrow> f v)"

text \<open>Running a list of computations stops at the first exception.\<close>

fun sequence :: "(error + 'a) list \<Rightarrow> error + 'a list" where
  "sequence [] = Inr []"
| "sequence (r # rs) = bind r (\<lambda>v. bind (sequence rs) (\<lambda>vs. Inr (v # vs)))"

text \<open>\<^verbatim>\<open>Array.prototype.join\<close> on an array of strings.\<close>

fun join :: "string \<Rightarrow> string list \<Rightarrow> string" where
  "join sep [] = []"
| "join sep [s] = s"
| "join sep (s # t # ss) = s @ sep @ join sep (t # ss)"

text \<open>
  Decimal digits of a natural number, \<^verbatim>\<open>Number.isSafeInteger\<close>, and
  \<^verbatim>\<open>Number::toString\<close> on integers.
\<close>

fun digits :: "nat \<Rightarrow> string" where
  "digits n =
     (if n < 10 then [''0123456789'' ! n]
      else digits (n div 10) @ [''0123456789'' ! (n mod 10)])"

definition safe_integer :: "int \<Rightarrow> bool" where
  "safe_integer n = (\<bar>n\<bar> \<le> 2 ^ 53 - 1)"

definition number_to_string :: "int \<Rightarrow> string" where
  "number_to_string n = (if n < 0 then ''-'' @ digits (nat (- n)) else digits (nat n))"

text \<open>
  \<^verbatim>\<open>ToString\<close>, as a template literal applies it to \<^verbatim>\<open>${...}\<close>. An array
  prints its elements joined by commas, \<^verbatim>\<open>null\<close> elements as the empty string. An
  object prints as \<^verbatim>\<open>[object Object]\<close>, unless it has an own property
  \<^verbatim>\<open>toString\<close>: a JSON value is never callable, so the conversion to a primitive
  finds no usable method and throws.
\<close>

fun to_string :: "json \<Rightarrow> error + string" where
  "to_string JNull = Inr ''null''"
| "to_string (JBool b) = Inr (if b then ''true'' else ''false'')"
| "to_string (JNum n) = Inr (number_to_string n)"
| "to_string (JStr s) = Inr s"
| "to_string (JArr xs) =
     bind (sequence (map (\<lambda>x. if x = JNull then Inr [] else to_string x) xs))
       (\<lambda>ss. Inr (join '','' ss))"
| "to_string (JObj kvs) =
     (if ''toString'' \<in> fst ` set kvs then Inl TypeError else Inr ''[object Object]'')"

text \<open>\<^verbatim>\<open>ToString\<close> of a value that may be \<^verbatim>\<open>undefined\<close>.\<close>

fun to_string_opt :: "json option \<Rightarrow> error + string" where
  "to_string_opt None = Inr ''undefined''"
| "to_string_opt (Some v) = to_string v"

text \<open>Truthiness: \<^verbatim>\<open>null\<close>, \<^verbatim>\<open>false\<close>, \<^verbatim>\<open>0\<close> and \<^verbatim>\<open>""\<close> are falsy.\<close>

fun truthy :: "json \<Rightarrow> bool" where
  "truthy JNull = False"
| "truthy (JBool b) = b"
| "truthy (JNum n) = (n \<noteq> 0)"
| "truthy (JStr s) = (s \<noteq> [])"
| "truthy (JArr xs) = True"
| "truthy (JObj kvs) = True"

text \<open>\<^verbatim>\<open>a || d\<close>, where \<open>a\<close> may be \<^verbatim>\<open>undefined\<close>.\<close>

fun or_else :: "json option \<Rightarrow> json \<Rightarrow> json" where
  "or_else None d = d"
| "or_else (Some v) d = (if truthy v then v else d)"

text \<open>
  Reading a property \<^verbatim>\<open>v.k\<close> of a value other than \<^verbatim>\<open>null\<close>. In an object built
  by \<^verbatim>\<open>JSON.parse\<close> the last occurrence of a key wins. Strings, numbers, booleans
  and arrays have none of the properties this program reads
  (\<^verbatim>\<open>x y width height style class type label text placeholder background color
  fontSize fontWeight elements css\<close>).
\<close>

fun get :: "json \<Rightarrow> string \<Rightarrow> json option" where
  "get (JObj kvs) k = map_of (rev kvs) k"
| "get v k = None"

text \<open>\<^verbatim>\<open>el.style?.k\<close>: the optional chain stops at \<^verbatim>\<open>undefined\<close> and \<^verbatim>\<open>null\<close>.\<close>

definition style_prop :: "json \<Rightarrow> string \<Rightarrow> json option" where
  "style_prop el k =
     (case get el ''style'' of
        None \<Rightarrow> None
      | Some JNull \<Rightarrow> None
      | Some s \<Rightarrow> get s k)"

text \<open>\<^verbatim>\<open>String.prototype.trim\<close> on the white space of ASCII.\<close>

definition is_ws :: "char \<Rightarrow> bool" where
  "is_ws c = (c \<in> set [CHR 0x09, CHR 0x0A, CHR 0x0B, CHR 0x0C, CHR 0x0D, CHR 0x20])"

definition trim_end :: "string \<Rightarrow> string" where
  "trim_end s = rev (dropWhile is_ws (rev s))"

definition trim :: "string \<Rightarrow> string" where
  "trim s = trim_end (dropWhile is_ws s)"

section \<open>renderHtml.js\<close>

text \<open>
  One optional declaration of the inline style,
  \<^verbatim>\<open>${el.style?.k ? `name:${el.style.k}unit;` : ""}\<close>.
\<close>

definition style_decl :: "json \<Rightarrow> string \<Rightarrow> string \<Rightarrow> string \<Rightarrow> error + string" where
  "style_decl el k name unit =
     (case style_prop el k of
        None \<Rightarrow> Inr []
      | Some v \<Rightarrow>
          if truthy v then bind (to_string v) (\<lambda>s. Inr (name @ s @ unit)) else Inr [])"

text \<open>The template literal of \<^verbatim>\<open>const style\<close>, before \<^verbatim>\<open>.trim()\<close>.\<close>

definition style_template ::
  "string \<Rightarrow> string \<Rightarrow> string \<Rightarrow> string \<Rightarrow> string \<Rightarrow> string \<Rightarrow> string \<Rightarrow> string \<Rightarrow> string" where
  "style_template l t w h bg col fs fw =
     nl @ ''      position:absolute;'' @
     nl @ ''      left:'' @ l @ ''px;'' @
     nl @ ''      top:'' @ t @ ''px;'' @
     nl @ ''      width:'' @ w @ ''px;'' @
     nl @ ''      height:'' @ h @ ''px;'' @
     nl @ ''      '' @ bg @
     nl @ ''      '' @ col @
     nl @ ''      '' @ fs @
     nl @ ''      '' @ fw @
     nl @ ''    ''"

definition element_style :: "json \<Rightarrow> error + string" where
  "element_style el =
     bind (to_string (or_else (get el ''x'') (JNum 0))) (\<lambda>l.
     bind (to_string (or_else (get el ''y'') (JNum 0))) (\<lambda>t.
     bind (to_string (or_else (get el ''width'') (JNum 100))) (\<lambda>w.
     bind (to_string (or_else (get el ''height'') (JNum 40))) (\<lambda>h.
     bind (style_decl el ''background'' ''background:'' '';'') (\<lambda>bg.
     bind (style_decl el ''color'' ''color:'' '';'') (\<lambda>col.
     bind (style_decl el ''fontSize'' ''font-size:'' ''px;'') (\<lambda>fs.
     bind (style_decl el ''fontWeight'' ''font-weight:'' '';'') (\<lambda>fw.
     Inr (trim (style_template l t w h bg col fs fw))))))))))"

text \<open>\<^verbatim>\<open>const cls = el.class ? `class="${el.class}"` : ""\<close>\<close>

definition element_cls :: "json \<Rightarrow> error + string" where
  "element_cls el =
     (case get el ''class'' of
        None \<Rightarrow> Inr []
      | Some c \<Rightarrow>
          if truthy c then bind (to_string c) (\<lambda>s. Inr (''class='' @ dq @ s @ dq))
          else Inr [])"

text \<open>
  \<^verbatim>\<open>renderElement\<close>. The first thing the body evaluates is \<^verbatim>\<open>el.x\<close>, which throws
  a \<^verbatim>\<open>TypeError\<close> when \<open>el\<close> is \<^verbatim>\<open>null\<close>. The style and the class attribute are
  computed before the type is looked at.
\<close>

definition renderElement :: "json \<Rightarrow> error + string" where
  "renderElement el =
     (if el = JNull then Inl TypeError
      else
        bind (element_style el) (\<lambda>style.
        bind (element_cls el) (\<lambda>cls.
        if get el ''type'' = Some (JStr ''button'') then
          bind (to_string (or_else (get el ''label'') (JStr ''Button''))) (\<lambda>label.
          Inr (''<button '' @ cls @ '' style='' @ dq @ style @ dq @ ''>'' @ label @ ''</button>''))
        else if get el ''type'' = Some (JStr ''text'') then
          bind (to_string (or_else (get el ''text'') (JStr ''Text''))) (\<lambda>text.
          Inr (''<div '' @ cls @ '' style='' @ dq @ style @ dq @ ''>'' @ text @ ''</div>''))
        else if get el ''type'' = Some (JStr ''input'') then
          bind (to_string (or_else (get el ''placeholder'') (JStr []))) (\<lambda>placeholder.
          Inr (''<input '' @ cls @ '' style='' @ dq @ style @ dq @
               '' placeholder='' @ dq @ placeholder @ dq @ '' />''))
        else Inr [])))"

text \<open>
  \<^verbatim>\<open>elements.map(renderElement).join("\n")\<close>: only an array has a \<^verbatim>\<open>map\<close> method,
  anything else (also \<^verbatim>\<open>undefined\<close>) throws.
\<close>

definition render_body :: "json option \<Rightarrow> error + string" where
  "render_body elements =
     (case elements of
        Some (JArr els) \<Rightarrow> bind (sequence (map renderElement els)) (\<lambda>ss. Inr (join nl ss))
      | _ \<Rightarrow> Inl TypeError)"

text \<open>The template literal that \<^verbatim>\<open>renderDSLtoHTML\<close> returns.\<close>

definition html_head :: "string \<Rightarrow> string \<Rightarrow> string" where
  "html_head width height =
     nl @ ''    <!DOCTYPE html>'' @
     nl @ ''    <html>'' @
     nl @ ''    <head>'' @
     nl @ ''      <meta charset='' @ dq @ ''utf-8'' @ dq @ '' />'' @
     nl @ ''      <style>'' @
     nl @ ''        body {'' @
     nl @ ''          margin: 0;'' @
     nl @ ''          position: relative;'' @
     nl @ ''          width: '' @ width @ ''px;'' @
     nl @ ''          height: '' @ height @ ''px;'' @
     nl @ ''        }'' @
     nl @ ''        ''"

definition html_tail :: "string \<Rightarrow> string" where
  "html_tail body =
     nl @ ''      </style>'' @
     nl @ ''    </head>'' @
     nl @ ''    <body>'' @
     nl @ ''      '' @ body @
     nl @ ''    </body>'' @
     nl @ ''    </html>'' @
     nl @ ''  ''"

text \<open>
  \<^verbatim>\<open>renderDSLtoHTML({ width, height, elements, css })\<close>: the argument is
  destructured (which throws on \<^verbatim>\<open>null\<close>), the body is rendered, and then the
  template is filled in from left to right.
\<close>

definition renderDSLtoHTML :: "json \<Rightarrow> error + string" where
  "renderDSLtoHTML doc =
     (if doc = JNull then Inl TypeError
      else
        bind (render_body (get doc ''elements'')) (\<lambda>body.
        bind (to_string_opt (get doc ''width'')) (\<lambda>width.
        bind (to_string_opt (get doc ''height'')) (\<lambda>height.
        bind (to_string_opt (get doc ''css'')) (\<lambda>css.
        Inr (html_head width height @ css @ html_tail body))))))"

section \<open>server.js\<close>

text \<open>
  The calls the handler makes on the remote browser, in the order it awaits them:
  \<^verbatim>\<open>puppeteer.connect\<close>, \<^verbatim>\<open>browser.newPage\<close>, \<^verbatim>\<open>page.setViewport\<close>,
  \<^verbatim>\<open>page.setContent\<close>, \<^verbatim>\<open>page.screenshot\<close> and \<^verbatim>\<open>page.close\<close>.
\<close>

datatype effect =
    Connect
  | NewPage
  | SetViewport json json
  | SetContent string
  | Screenshot
  | ClosePage

text \<open>
  The browser is outside the program. For one request it is described by what each
  awaited call does: resolve, or reject. \<open>screenshot_png\<close> is the captured image,
  as the text \<^verbatim>\<open>screenshot.toString("base64")\<close> yields.
\<close>

record browser =
  connect_ok :: bool
  newPage_ok :: bool
  setViewport_ok :: bool
  setContent_ok :: bool
  screenshot_png :: "string option"
  close_ok :: bool

text \<open>
  A request ends with \<^verbatim>\<open>res.json(...)\<close>, or the async handler rejects: nothing
  catches the exception and no response is sent.
\<close>

datatype outcome =
    Responded json
  | Rejected error

text \<open>Lines 14 to 26 of the handler: the calls made, and how the request ends.\<close>

definition browser_session :: "browser \<Rightarrow> json \<Rightarrow> json \<Rightarrow> string \<Rightarrow> effect list \<times> outcome" where
  "browser_session b width height html =
     (if \<not> connect_ok b then
        ([Connect], Rejected (BrowserError ''connect''))
      else if \<not> newPage_ok b then
        ([Connect, NewPage], Rejected (BrowserError ''newPage''))
      else if \<not> setViewport_ok b then
        ([Connect, NewPage, SetViewport width height], Rejected (BrowserError ''setViewport''))
      else if \<not> setContent_ok b then
        ([Connect, NewPage, SetViewport width height, SetContent html],
         Rejected (BrowserError ''setContent''))
      else
        (case screenshot_png b of
           None \<Rightarrow>
             ([Connect, NewPage, SetViewport width height, SetContent html, Screenshot],
              Rejected (BrowserError ''screenshot''))
         | Some png \<Rightarrow>
             if \<not> close_ok b then
               ([Connect, NewPage, SetViewport width height, SetContent html, Screenshot, ClosePage],
                Rejected (BrowserError ''close''))
             else
               ([Connect, NewPage, SetViewport width height, SetContent html, Screenshot, ClosePage],
                Responded (JObj [(''image_base64'', JStr (''data:image/png;base64,'' @ png))]))))"

text \<open>A destructuring default \<^verbatim>\<open>{ k = d }\<close> applies to \<^verbatim>\<open>undefined\<close> only.\<close>

fun or_default :: "json option \<Rightarrow> json \<Rightarrow> json" where
  "or_default None d = d"
| "or_default (Some v) d = v"

text \<open>
  \<^verbatim>\<open>const { width = 800, height = 600, elements = [], css = "" } = req.body\<close> and
  the object \<^verbatim>\<open>{ width, height, elements, css }\<close> passed to the compiler.
\<close>

definition request_doc :: "json \<Rightarrow> json" where
  "request_doc body =
     JObj [(''width'', or_default (get body ''width'') (JNum 800)),
           (''height'', or_default (get body ''height'') (JNum 600)),
           (''elements'', or_default (get body ''elements'') (JArr [])),
           (''css'', or_default (get body ''css'') (JStr []))]"

text \<open>The handler of \<^verbatim>\<open>POST /render\<close>, for the parsed body of one request.\<close>

definition render_handler :: "browser \<Rightarrow> json \<Rightarrow> effect list \<times> outcome" where
  "render_handler b body =
     (if body = JNull then ([], Rejected TypeError)
      else
        (case renderDSLtoHTML (request_doc body) of
           Inl e \<Rightarrow> ([], Rejected e)
         | Inr html \<Rightarrow>
             browser_session b
               (or_default (get body ''width'') (JNum 800))
               (or_default (get body ''height'') (JNum 600)) html))"

text \<open>
  The module keeps no state between requests (its only bindings are the endpoint, the
  express application and the port), so a sequence of requests is served one handler
  run each.
\<close>

definition serve :: "(browser \<times> json) list \<Rightarrow> (effect list \<times> outcome) list" where
  "serve reqs = map (\<lambda>(b, body). render_handler b body) reqs"

text \<open>A browser whose calls all resolve, returning the image \<open>png\<close>.\<close>

definition ok_browser :: "string \<Rightarrow> browser" where
  "ok_browser png =
     \<lparr>connect_ok = True, newPage_ok = True, setViewport_ok = True, setContent_ok = True,
      screenshot_png = Some png, close_ok = True\<rparr>"

subsection \<open>Requests in flight at the same time\<close>

text \<open>
  Every browser call is awaited, so between two calls of one request the event loop may
  run any other request. A request in flight is the list of calls it has made and the
  list of calls it still has to make; a step lets one request make its next call.
\<close>

type_synonym in_flight = "effect list \<times> effect list"

inductive step :: "in_flight list \<Rightarrow> in_flight list \<Rightarrow> bool" where
  next_call: "i < length rs \<Longrightarrow> rs ! i = (made, e # todo) \<Longrightarrow>
     step rs (rs[i := (made @ [e], todo)])"

text \<open>A request holds a browser page from \<^verbatim>\<open>newPage\<close> until \<^verbatim>\<open>page.close\<close>.\<close>

definition holds_page :: "in_flight \<Rightarrow> bool" where
  "holds_page r = (NewPage \<in> set (fst r) \<and> ClosePage \<notin> set (fst r))"

definition busy :: "in_flight list \<Rightarrow> nat" where
  "busy rs = length (filter holds_page rs)"

text \<open>
  Requests served at the same time, each with its own browser behaviour: the state in
  which every request has made its first \<open>k\<close> browser calls. With \<open>k = 0\<close> all have
  arrived and none has called the browser yet.
\<close>

definition calls_split :: "nat \<Rightarrow> browser \<times> json \<Rightarrow> in_flight" where
  "calls_split k req =
     (take k (fst (render_handler (fst req) (snd req))),
      drop k (fst (render_handler (fst req) (snd req))))"

definition after_calls :: "nat \<Rightarrow> (browser \<times> json) list \<Rightarrow> in_flight list" where
  "after_calls k reqs = map (calls_split k) reqs"

subsection \<open>The documents of the specification's examples\<close>

text \<open>
  \<^verbatim>\<open>{"type":"button","layout":{"x":150,"y":80,"width":100,"height":40},"label":"Click Me!"}\<close>
  in a canvas of 400 by 200.
\<close>

definition example_button :: json where
  "example_button =
     JObj [(''type'', JStr ''button''),
           (''layout'', JObj [(''x'', JNum 150), (''y'', JNum 80),
                              (''width'', JNum 100), (''height'', JNum 40)]),
           (''label'', JStr ''Click Me!'')]"

definition example_doc :: json where
  "example_doc =
     JObj [(''width'', JNum 400), (''height'', JNum 200), (''elements'', JArr [example_button])]"

text \<open>The same button with its rectangle given as fields of the element itself.\<close>

definition flat_button :: json where
  "flat_button =
     JObj [(''type'', JStr ''button''), (''x'', JNum 150), (''y'', JNum 80),
           (''width'', JNum 100), (''height'', JNum 40), (''label'', JStr ''Click Me!'')]"

text \<open>\<^verbatim>\<open>{"width":50,"height":200,"elements":[]}\<close>\<close>

definition narrow_doc :: json where
  "narrow_doc = JObj [(''width'', JNum 50), (''height'', JNum 200), (''elements'', JArr [])]"

text \<open>A container with one child, in a canvas of 400 by 200.\<close>

definition container_doc :: json where
  "container_doc =
     JObj [(''width'', JNum 400), (''height'', JNum 200),
           (''elements'',
            JArr [JObj [(''type'', JStr ''container''),
                        (''children'', JArr [flat_button])]]),
           (''css'', JStr [])]"

text \<open>
  Elements whose string fields contain markup:
  \<^verbatim>\<open>{"type":"button","class":"a\" onclick=\"x()","label":"</button><script>alert(1)</script>"}\<close>,
  \<^verbatim>\<open>{"type":"text","text":"<b>1 < 2 & 3</b>"}\<close> and
  \<^verbatim>\<open>{"type":"input","placeholder":"\"><h1>"}\<close>.
\<close>

definition markup_button :: json where
  "markup_button =
     JObj [(''type'', JStr ''button''),
           (''class'', JStr (''a'' @ dq @ '' onclick='' @ dq @ ''x()'')),
           (''label'', JStr ''</button><script>alert(1)</script>'')]"

definition markup_text :: json where
  "markup_text = JObj [(''type'', JStr ''text''), (''text'', JStr ''<b>1 < 2 & 3</b>'')]"

definition markup_input :: json where
  "markup_input = JObj [(''type'', JStr ''input''), (''placeholder'', JStr (dq @ ''><h1>''))]"

text \<open>The inline style of an element that gives no position, size or style.\<close>

definition default_style :: string where
  "default_style =
     ''position:absolute;'' @
     nl @ ''      left:0px;'' @
     nl @ ''      top:0px;'' @
     nl @ ''      width:100px;'' @
     nl @ ''      height:40px;''"



text \<open>The first bytes of a PNG file, in base64: the image of the examples.\<close>

definition sample_png :: string where
  "sample_png = ''iVBORw0KGgo=''"

text \<open>The page compiled from \<open>narrow_doc\<close>.\<close>

definition narrow_html :: string where
  "narrow_html = html_head ''50'' ''200'' @ [] @ html_tail []"

text \<open>Six requests for \<open>example_doc\<close> at the same time, every browser call succeeding.\<close>

definition six_requests :: "(browser \<times> json) list" where
  "six_requests = replicate 6 (ok_browser sample_png, example_doc)"

text \<open>The page the server compiles from \<open>example_doc\<close>.\<close>

definition example_html :: string where
  "example_html =
     html_head ''400'' ''200'' @ [] @
     html_tail (''<button  style='' @ dq @ ''position:absolute;'' @
                nl @ ''      left:0px;'' @
                nl @ ''      top:0px;'' @
                nl @ ''      width:100px;'' @
                nl @ ''      height:40px;'' @ dq @ ''>Click Me!</button>'')"


text \<open>A page of the three elements with markup in their fields, and what it compiles to.\<close>

definition markup_doc :: json where
  "markup_doc =
     JObj [(''width'', JNum 400), (''height'', JNum 200),
           (''elements'', JArr [markup_button, markup_text, markup_input]), (''css'', JStr [])]"

definition markup_html :: string where
  "markup_html =
     html_head ''400'' ''200'' @ [] @
     html_tail
       (''<button class='' @ dq @ ''a'' @ dq @ '' onclick='' @ dq @ ''x()'' @ dq @
          '' style='' @ dq @ default_style @ dq @
          ''></button><script>alert(1)</script></button>'' @ nl @
        ''<div  style='' @ dq @ default_style @ dq @ ''><b>1 < 2 & 3</b></div>'' @ nl @
        ''<input  style='' @ dq @ default_style @ dq @
          '' placeholder='' @ dq @ dq @ ''><h1>'' @ dq @ '' />'')"

text \<open>
  \<^verbatim>\<open>{"type":"card","class":"hero","label":"<b>hi</b>","text":"<i>there</i>","placeholder":"<u>you</u>"}\<close>
  as the only element of a page.
\<close>

definition card_doc :: json where
  "card_doc =
     JObj [(''width'', JNum 400), (''height'', JNum 200),
           (''elements'',
            JArr [JObj [(''type'', JStr ''card''), (''class'', JStr ''hero''),
                        (''label'', JStr ''<b>hi</b>''), (''text'', JStr ''<i>there</i>''),
                        (''placeholder'', JStr ''<u>you</u>'')]]),
           (''css'', JStr [])]"



section \<open>Basic facts\<close>

declare digits.simps [simp del]

lemma bind_Inr [simp]: "bind (Inr v) f = f v"
  by (simp add: bind_def)

lemma bind_Inl [simp]: "bind (Inl e) f = Inl e"
  by (simp add: bind_def)

lemma bind_eq_Inr: "bind r f = Inr y \<longleftrightarrow> (\<exists>v. r = Inr v \<and> f v = Inr y)"
  by (cases r) simp_all





text \<open>
  \<^verbatim>\<open>trim\<close> removes the line break and the indentation in front of
  \<^verbatim>\<open>position:absolute;\<close> and the white space after the last semicolon, nothing else.
\<close>

lemma trim_end_snoc_block:
  "\<not> is_ws c \<Longrightarrow> trim_end (xs @ c # ys) = xs @ c # trim_end ys"
  by (simp add: trim_end_def dropWhile_append3)

lemma trim_style_template:
  "trim (style_template l t w h bg col fs fw) =
     ''position:absolute;'' @
     nl @ ''      left:'' @ l @ ''px;'' @
     nl @ ''      top:'' @ t @ ''px;'' @
     nl @ ''      width:'' @ w @ ''px;'' @
     nl @ ''      height:'' @ h @ ''px;'' @
     trim_end (nl @ ''      '' @ bg @ nl @ ''      '' @ col @ nl @ ''      '' @ fs @
               nl @ ''      '' @ fw @ nl @ ''    '')"
proof -
  have semi: "\<not> is_ws CHR '';''" by (simp add: is_ws_def)
  let ?A = "''position:absolute;'' @
     nl @ ''      left:'' @ l @ ''px;'' @
     nl @ ''      top:'' @ t @ ''px;'' @
     nl @ ''      width:'' @ w @ ''px;'' @
     nl @ ''      height:'' @ h @ ''px''"
  let ?X = "nl @ ''      '' @ bg @ nl @ ''      '' @ col @ nl @ ''      '' @ fs @
               nl @ ''      '' @ fw @ nl @ ''    ''"
  have "dropWhile is_ws (style_template l t w h bg col fs fw) = ?A @ CHR '';'' # ?X"
    by (simp add: style_template_def is_ws_def)
  then have "trim (style_template l t w h bg col fs fw) = ?A @ CHR '';'' # trim_end ?X"
    unfolding trim_def using trim_end_snoc_block [OF semi, of ?A ?X] by simp
  then show ?thesis by simp
qed



lemma sequence_eq_Inr: "sequence rs = Inr vs \<longleftrightarrow> rs = map Inr vs"
proof (induction rs arbitrary: vs)
  case Nil
  show ?case by auto
next
  case (Cons r rs)
  show ?case
  proof (cases r)
    case (Inl e)
    then show ?thesis by auto
  next
    case (Inr v)
    then show ?thesis using Cons.IH by (cases vs) (auto simp: bind_eq_Inr)
  qed
qed

text \<open>Requests in flight: one request makes its next calls while the others wait.\<close>

lemma step_at: "step (xs @ (made, e # todo) # ys) (xs @ (made @ [e], todo) # ys)"
  using next_call [of "length xs" "xs @ (made, e # todo) # ys" made e todo] by simp

lemma run_calls:
  "step\<^sup>*\<^sup>* (xs @ (made, es @ todo) # ys) (xs @ (made @ es, todo) # ys)"
proof (induction es arbitrary: made)
  case Nil
  show ?case by simp
next
  case (Cons e es)
  have "step (xs @ (made, (e # es) @ todo) # ys) (xs @ (made @ [e], es @ todo) # ys)"
    using step_at [of xs made e "es @ todo" ys] by simp
  moreover have "step\<^sup>*\<^sup>* (xs @ (made @ [e], es @ todo) # ys) (xs @ (made @ e # es, todo) # ys)"
    using Cons.IH [of "made @ [e]"] by simp
  ultimately show ?case by (rule converse_rtranclp_into_rtranclp)
qed

lemma all_run_calls:
  assumes "\<forall>z \<in> set zs. \<exists>es. snd (f z) = es @ snd (g z) \<and> fst (g z) = fst (f z) @ es"
  shows "step\<^sup>*\<^sup>* (xs @ map f zs) (xs @ map g zs)"
  using assms
proof (induction zs arbitrary: xs)
  case Nil
  show ?case by simp
next
  case (Cons z zs)
  from Cons.prems obtain es where es: "snd (f z) = es @ snd (g z)" "fst (g z) = fst (f z) @ es"
    by auto
  have "step\<^sup>*\<^sup>* (xs @ (fst (f z), es @ snd (g z)) # map f zs)
          (xs @ (fst (f z) @ es, snd (g z)) # map f zs)"
    by (rule run_calls)
  then have one: "step\<^sup>*\<^sup>* (xs @ f z # map f zs) (xs @ g z # map f zs)"
    using es by (metis prod.collapse)
  have "step\<^sup>*\<^sup>* ((xs @ [g z]) @ map f zs) ((xs @ [g z]) @ map g zs)"
    using Cons.prems by (intro Cons.IH) simp
  then have rest: "step\<^sup>*\<^sup>* (xs @ g z # map f zs) (xs @ g z # map g zs)"
    by simp
  from one rest show ?case by simp
qed

lemma after_calls_reachable:
  assumes "j \<le> k"
  shows "step\<^sup>*\<^sup>* (after_calls j reqs) (after_calls k reqs)"
proof -
  have "take k tr = take j tr @ take (k - j) (drop j tr)" for tr :: "effect list"
    using assms by (metis le_add_diff_inverse take_add)
  moreover have "drop j tr = take (k - j) (drop j tr) @ drop k tr" for tr :: "effect list"
    using assms by (metis append_take_drop_id drop_drop le_add_diff_inverse2)
  ultimately have "\<forall>z \<in> set reqs. \<exists>es.
      snd (calls_split j z) = es @ snd (calls_split k z) \<and>
      fst (calls_split k z) = fst (calls_split j z) @ es"
    by (auto simp: calls_split_def split_beta)
  from all_run_calls [OF this, of "[]"] show ?thesis
    by (simp add: after_calls_def)
qed

lemma responded_opens_page:
  assumes "snd (render_handler b body) = Responded r"
  shows "take 2 (fst (render_handler b body)) = [Connect, NewPage]"
    and "length (fst (render_handler b body)) = 6"
  using assms
  by (auto simp: render_handler_def browser_session_def split: if_splits sum.splits option.splits)

lemma busy_after_two_calls:
  assumes "\<forall>(b, body) \<in> set reqs. \<exists>r. snd (render_handler b body) = Responded r"
  shows "busy (after_calls 2 reqs) = length reqs"
proof -
  have "holds_page (calls_split 2 z)" if "z \<in> set reqs" for z
  proof -
    obtain b body where z: "z = (b, body)" by (cases z)
    with that assms obtain r where "snd (render_handler b body) = Responded r" by auto
    from responded_opens_page(1) [OF this] show ?thesis
      by (simp add: holds_page_def calls_split_def z)
  qed
  then have "filter holds_page (map (calls_split 2) reqs) = map (calls_split 2) reqs"
    by (simp add: filter_id_conv)
  then show ?thesis by (simp add: busy_def after_calls_def)
qed

text \<open>What a successful compilation returns, and where each element is in it.\<close>

lemma renderDSLtoHTML_Inr:
  "renderDSLtoHTML d = Inr html \<longleftrightarrow>
     (\<exists>els outs w h css.
        get d ''elements'' = Some (JArr els) \<and>
        map renderElement els = map Inr outs \<and>
        to_string_opt (get d ''width'') = Inr w \<and>
        to_string_opt (get d ''height'') = Inr h \<and>
        to_string_opt (get d ''css'') = Inr css \<and>
        html = html_head w h @ css @ html_tail (join nl outs))"
proof (cases "d = JNull")
  case True
  then show ?thesis by (simp add: renderDSLtoHTML_def)
next
  case False
  show ?thesis
  proof (cases "\<exists>els. get d ''elements'' = Some (JArr els)")
    case True
    then obtain els where "get d ''elements'' = Some (JArr els)" by blast
    with False show ?thesis
      by (auto simp: renderDSLtoHTML_def render_body_def bind_eq_Inr sequence_eq_Inr)
  next
    case False
    then have "render_body (get d ''elements'') = Inl TypeError"
      by (auto simp: render_body_def split: option.splits json.splits)
    with False \<open>d \<noteq> JNull\<close> show ?thesis by (simp add: renderDSLtoHTML_def)
  qed
qed

lemma sublist_join: "out \<in> set outs \<Longrightarrow> sublist out (join sep outs)"
proof (induction sep outs rule: join.induct)
  case (1 sep)
  then show ?case by simp
next
  case (2 sep s)
  then show ?case by simp
next
  case (3 sep s t ss)
  show ?case
  proof (cases "out = s")
    case True
    then show ?thesis by simp
  next
    case False
    with 3 have "sublist out (join sep (t # ss))" by simp
    then obtain ps qs where "join sep (t # ss) = ps @ out @ qs" by (auto simp: sublist_def)
    then have "join sep (s # t # ss) = (s @ sep @ ps) @ out @ qs" by simp
    then show ?thesis unfolding sublist_def by blast
  qed
qed

lemma sublist_page:
  assumes "sublist x body"
  shows "sublist x (html_head w h @ css @ html_tail body)"
proof -
  from assms obtain ps qs where "body = ps @ x @ qs" by (auto simp: sublist_def)
  then have "html_head w h @ css @ html_tail body =
      (html_head w h @ css @ nl @ ''      </style>'' @ nl @ ''    </head>'' @ nl @ ''    <body>'' @
       nl @ ''      '' @ ps) @ x @ (qs @ nl @ ''    </body>'' @ nl @ ''    </html>'' @ nl @ ''  '')"
    by (simp add: html_tail_def)
  then show ?thesis unfolding sublist_def by blast
qed

lemma element_on_page:
  assumes "renderDSLtoHTML doc = Inr html" and "get doc ''elements'' = Some (JArr els)"
    and "el \<in> set els"
  shows "\<exists>out. renderElement el = Inr out \<and> sublist out html"
proof -
  from assms(1,2) obtain outs w h css where
    outs: "map renderElement els = map Inr outs" and
    html: "html = html_head w h @ css @ html_tail (join nl outs)"
    unfolding renderDSLtoHTML_Inr by auto
  from assms(3) have "renderElement el \<in> set (map renderElement els)" by simp
  with outs obtain out where "renderElement el = Inr out" and "out \<in> set outs" by auto
  then show ?thesis using html sublist_join sublist_page by blast
qed

lemma renderElement_Inr_parts:
  assumes "renderElement el = Inr out"
  shows "el \<noteq> JNull" and "\<exists>style cls. element_style el = Inr style \<and> element_cls el = Inr cls"
  using assms by (auto simp: renderElement_def bind_eq_Inr split: if_splits)

text \<open>The equations that evaluate the compiler on a concrete document.\<close>

lemmas eval_defs =
  renderDSLtoHTML_def render_body_def renderElement_def element_style_def style_decl_def
  style_prop_def element_cls_def number_to_string_def digits.simps trim_style_template
  trim_end_def is_ws_def

section \<open>Properties of the compiler\<close>





text \<open>
  C9 does not hold as specified: it is not for every element that the fields reach the
  page. A \<^verbatim>\<open>card\<close> with markup in \<^verbatim>\<open>label\<close>, \<^verbatim>\<open>text\<close> and \<^verbatim>\<open>placeholder\<close> and
  with a \<^verbatim>\<open>class\<close> compiles to a page with an empty body, in which none of the
  four values occurs.
\<close>

theorem card_fields_counterexample:
  "renderDSLtoHTML card_doc = Inr (html_head ''400'' ''200'' @ [] @ html_tail []) \<and>
   \<not> sublist ''<b>hi</b>'' (html_head ''400'' ''200'' @ [] @ html_tail []) \<and>
   \<not> sublist ''<i>there</i>'' (html_head ''400'' ''200'' @ [] @ html_tail []) \<and>
   \<not> sublist ''<u>you</u>'' (html_head ''400'' ''200'' @ [] @ html_tail []) \<and>
   \<not> sublist ''hero'' (html_head ''400'' ''200'' @ [] @ html_tail [])"
  by (simp add: card_doc_def eval_defs html_head_def html_tail_def sublist_code)

text \<open>
  C9, as the code has it: in the page compiled from a document, every element of type
  \<^verbatim>\<open>button\<close> with a non-empty string \<^verbatim>\<open>label\<close>, of type \<^verbatim>\<open>text\<close> with a
  non-empty string \<^verbatim>\<open>text\<close>, or of type \<^verbatim>\<open>input\<close> with a string
  \<^verbatim>\<open>placeholder\<close> stands with that string copied character for character, with no
  escaping, whatever markup it contains: between the opening and the closing tag for
  a label or a text, between the double quotes of the attribute for a placeholder. A
  non-empty string \<^verbatim>\<open>class\<close> of such an element is copied the same way between the
  double quotes of its class attribute. An element of any other type puts nothing on
  the page, whatever its fields.
\<close>

theorem fields_interpolated_verbatim:
  assumes "renderDSLtoHTML doc = Inr html"
    and "get doc ''elements'' = Some (JArr els)"
    and "el \<in> set els"
  shows "\<exists>style cls.
      element_style el = Inr style \<and> element_cls el = Inr cls \<and>
      (get el ''type'' = Some (JStr ''button'') \<and> get el ''label'' = Some (JStr label) \<and>
       label \<noteq> [] \<longrightarrow>
         sublist (''<button '' @ cls @ '' style='' @ dq @ style @ dq @ ''>'' @ label @
                  ''</button>'') html) \<and>
      (get el ''type'' = Some (JStr ''text'') \<and> get el ''text'' = Some (JStr txt) \<and>
       txt \<noteq> [] \<longrightarrow>
         sublist (''<div '' @ cls @ '' style='' @ dq @ style @ dq @ ''>'' @ txt @ ''</div>'')
           html) \<and>
      (get el ''type'' = Some (JStr ''input'') \<and> get el ''placeholder'' = Some (JStr ph) \<longrightarrow>
         sublist (''<input '' @ cls @ '' style='' @ dq @ style @ dq @
                  '' placeholder='' @ dq @ ph @ dq @ '' />'') html) \<and>
      (get el ''class'' = Some (JStr c) \<and> c \<noteq> [] \<longrightarrow> cls = ''class='' @ dq @ c @ dq) \<and>
      (get el ''type'' \<noteq> Some (JStr ''button'') \<and> get el ''type'' \<noteq> Some (JStr ''text'') \<and>
       get el ''type'' \<noteq> Some (JStr ''input'') \<longrightarrow> renderElement el = Inr [])"
proof -
  from element_on_page [OF assms] obtain out where
    out: "renderElement el = Inr out" and on_page: "sublist out html"
    by blast
  from renderElement_Inr_parts [OF out] obtain style cls where
    nn: "el \<noteq> JNull" and style: "element_style el = Inr style" and cls: "element_cls el = Inr cls"
    by blast
  have "cls = ''class='' @ dq @ c @ dq" if "get el ''class'' = Some (JStr c)" and "c \<noteq> []"
    using that cls by (simp add: element_cls_def)
  moreover have "sublist (''<button '' @ cls @ '' style='' @ dq @ style @ dq @ ''>'' @ label @
                  ''</button>'') html"
    if "get el ''type'' = Some (JStr ''button'')" and "get el ''label'' = Some (JStr label)"
      and "label \<noteq> []"
  proof -
    have "renderElement el =
        Inr (''<button '' @ cls @ '' style='' @ dq @ style @ dq @ ''>'' @ label @ ''</button>'')"
      using that nn style cls by (simp add: renderElement_def)
    with out on_page show ?thesis by simp
  qed
  moreover have "sublist (''<div '' @ cls @ '' style='' @ dq @ style @ dq @ ''>'' @ txt @
                  ''</div>'') html"
    if "get el ''type'' = Some (JStr ''text'')" and "get el ''text'' = Some (JStr txt)"
      and "txt \<noteq> []"
  proof -
    have "renderElement el =
        Inr (''<div '' @ cls @ '' style='' @ dq @ style @ dq @ ''>'' @ txt @ ''</div>'')"
      using that nn style cls by (simp add: renderElement_def)
    with out on_page show ?thesis by simp
  qed
  moreover have "sublist (''<input '' @ cls @ '' style='' @ dq @ style @ dq @
                  '' placeholder='' @ dq @ ph @ dq @ '' />'') html"
    if "get el ''type'' = Some (JStr ''input'')" and "get el ''placeholder'' = Some (JStr ph)"
  proof -
    have "renderElement el =
        Inr (''<input '' @ cls @ '' style='' @ dq @ style @ dq @
             '' placeholder='' @ dq @ ph @ dq @ '' />'')"
      using that nn style cls by (cases "ph = []") (simp_all add: renderElement_def)
    with out on_page show ?thesis by simp
  qed
  moreover have "renderElement el = Inr []"
    if "get el ''type'' \<noteq> Some (JStr ''button'')" and "get el ''type'' \<noteq> Some (JStr ''text'')"
      and "get el ''type'' \<noteq> Some (JStr ''input'')"
    using that nn style cls by (simp add: renderElement_def)
  ultimately show ?thesis using style cls by blast
qed

theorem fields_interpolated_verbatim_witness:
  "renderDSLtoHTML markup_doc = Inr markup_html \<and>
   get markup_doc ''elements'' = Some (JArr [markup_button, markup_text, markup_input]) \<and>
   element_style markup_button = Inr default_style \<and>
   element_cls markup_button =
     Inr (''class='' @ dq @ ''a'' @ dq @ '' onclick='' @ dq @ ''x()'' @ dq) \<and>
   sublist (''<button class='' @ dq @ ''a'' @ dq @ '' onclick='' @ dq @ ''x()'' @ dq @
            '' style='' @ dq @ default_style @ dq @
            ''></button><script>alert(1)</script></button>'') markup_html \<and>
   sublist (''<div  style='' @ dq @ default_style @ dq @ ''><b>1 < 2 & 3</b></div>'')
     markup_html \<and>
   sublist (''<input  style='' @ dq @ default_style @ dq @
            '' placeholder='' @ dq @ dq @ ''><h1>'' @ dq @ '' />'') markup_html"
proof -
  have r: "renderDSLtoHTML markup_doc = Inr markup_html"
    by (simp add: markup_doc_def markup_html_def markup_button_def markup_text_def
        markup_input_def default_style_def eval_defs)
  have g: "get markup_doc ''elements'' = Some (JArr [markup_button, markup_text, markup_input])"
    by (simp add: markup_doc_def)
  have s1: "element_style markup_button = Inr default_style"
    by (simp add: markup_button_def default_style_def eval_defs)
  have c1: "element_cls markup_button =
      Inr (''class='' @ dq @ ''a'' @ dq @ '' onclick='' @ dq @ ''x()'' @ dq)"
    by (simp add: markup_button_def eval_defs)
  have s2: "element_style markup_text = Inr default_style"
    by (simp add: markup_text_def default_style_def eval_defs)
  have c2: "element_cls markup_text = Inr []"
    by (simp add: markup_text_def eval_defs)
  have s3: "element_style markup_input = Inr default_style"
    by (simp add: markup_input_def default_style_def eval_defs)
  have c3: "element_cls markup_input = Inr []"
    by (simp add: markup_input_def eval_defs)
  have b: "sublist (''<button class='' @ dq @ ''a'' @ dq @ '' onclick='' @ dq @ ''x()'' @ dq @
            '' style='' @ dq @ default_style @ dq @
            ''></button><script>alert(1)</script></button>'') markup_html"
    using fields_interpolated_verbatim [OF r g, of markup_button
        "''</button><script>alert(1)</script>''" "[]" "[]" "[]"] s1 c1
    by (simp add: markup_button_def)
  have t: "sublist (''<div  style='' @ dq @ default_style @ dq @ ''><b>1 < 2 & 3</b></div>'')
     markup_html"
    using fields_interpolated_verbatim [OF r g, of markup_text "[]" "''<b>1 < 2 & 3</b>''" "[]" "[]"]
      s2 c2
    by (simp add: markup_text_def)
  have i: "sublist (''<input  style='' @ dq @ default_style @ dq @
            '' placeholder='' @ dq @ dq @ ''><h1>'' @ dq @ '' />'') markup_html"
    using fields_interpolated_verbatim [OF r g, of markup_input "[]" "[]" "dq @ ''><h1>''" "[]"]
      s3 c3
    by (simp add: markup_input_def)
  from r g s1 c1 b t i show ?thesis by simp
qed




text \<open>
  C5 does not hold as specified: the compiled example document has no
  \<^verbatim>\<open>left:150px\<close> and no \<^verbatim>\<open>top:80px\<close> anywhere; its button sits at
  \<^verbatim>\<open>left:0px\<close> and \<^verbatim>\<open>top:0px\<close>.
\<close>

theorem example_button_counterexample:
  "renderDSLtoHTML (request_doc example_doc) = Inr example_html \<and>
   \<not> sublist ''left:150px'' example_html \<and> \<not> sublist ''top:80px'' example_html \<and>
   sublist ''left:0px'' example_html \<and> sublist ''top:0px'' example_html"
  by (simp add: request_doc_def example_doc_def example_button_def example_html_def eval_defs
      html_head_def html_tail_def sublist_code)

text \<open>
  C5, as the code has it: the compiler reads \<^verbatim>\<open>x\<close>, \<^verbatim>\<open>y\<close>, \<^verbatim>\<open>width\<close> and
  \<^verbatim>\<open>height\<close> from the element itself and never looks at \<^verbatim>\<open>layout\<close>. The body
  compiled from the example document is exactly one absolutely positioned
  \<^verbatim>\<open>button\<close> with the default rectangle (left 0, top 0, width 100, height 40, one
  declaration per line); with the four numbers given as fields of the element the
  button is at left 150, top 80, width 100, height 40.
\<close>

theorem example_button_compiled:
  "render_body (get example_doc ''elements'') =
     Inr (''<button  style='' @ dq @ ''position:absolute;'' @
          nl @ ''      left:0px;'' @
          nl @ ''      top:0px;'' @
          nl @ ''      width:100px;'' @
          nl @ ''      height:40px;'' @ dq @ ''>Click Me!</button>'') \<and>
   render_body (Some (JArr [flat_button])) =
     Inr (''<button  style='' @ dq @ ''position:absolute;'' @
          nl @ ''      left:150px;'' @
          nl @ ''      top:80px;'' @
          nl @ ''      width:100px;'' @
          nl @ ''      height:40px;'' @ dq @ ''>Click Me!</button>'')"
  by (simp add: example_doc_def example_button_def flat_button_def eval_defs)

text \<open>
  C6 does not hold as specified: a document whose only element is a container
  with a button as its child compiles to a page with an empty body; neither the
  container nor the child is rendered.
\<close>

theorem container_children_counterexample:
  "renderDSLtoHTML container_doc = Inr (html_head ''400'' ''200'' @ [] @ html_tail [])"
  by (simp add: container_doc_def flat_button_def eval_defs)


text \<open>
  C6, as the code has it: only the top-level elements are rendered, in document order
  and joined by line breaks; an element whose type is not \<^verbatim>\<open>button\<close>, \<^verbatim>\<open>text\<close>
  or \<^verbatim>\<open>input\<close> (every container, then) compiles to the empty string; and
  \<^verbatim>\<open>children\<close> is never read: two elements that differ in \<^verbatim>\<open>children\<close> only
  compile to the same result.
\<close>

theorem top_level_elements_only:
  "(renderElement el = Inr out \<and> get el ''type'' \<noteq> Some (JStr ''button'') \<and>
      get el ''type'' \<noteq> Some (JStr ''text'') \<and> get el ''type'' \<noteq> Some (JStr ''input'')
      \<longrightarrow> out = []) \<and>
   ((\<forall>k. k \<noteq> ''children'' \<longrightarrow> get el k = get el' k) \<and> el \<noteq> JNull \<and> el' \<noteq> JNull
      \<longrightarrow> renderElement el = renderElement el') \<and>
   (render_body (Some (JArr els)) = Inr body
      \<longrightarrow> (\<exists>outs. map renderElement els = map Inr outs \<and> body = join nl outs))"
proof -
  have a: "out = []"
    if "renderElement el = Inr out" and "get el ''type'' \<noteq> Some (JStr ''button'')"
      and "get el ''type'' \<noteq> Some (JStr ''text'')" and "get el ''type'' \<noteq> Some (JStr ''input'')"
    using that by (auto simp: renderElement_def bind_eq_Inr split: if_splits)
  have b: "renderElement el = renderElement el'"
    if same: "\<forall>k. k \<noteq> ''children'' \<longrightarrow> get el k = get el' k"
      and "el \<noteq> JNull" and "el' \<noteq> JNull"
  proof -
    have g: "get el ''x'' = get el' ''x''" "get el ''y'' = get el' ''y''"
      "get el ''width'' = get el' ''width''" "get el ''height'' = get el' ''height''"
      "get el ''style'' = get el' ''style''" "get el ''class'' = get el' ''class''"
      "get el ''type'' = get el' ''type''" "get el ''label'' = get el' ''label''"
      "get el ''text'' = get el' ''text''" "get el ''placeholder'' = get el' ''placeholder''"
      using same by simp_all
    have st: "element_style el = element_style el'"
      by (simp add: element_style_def style_decl_def style_prop_def g)
    have cl: "element_cls el = element_cls el'"
      by (simp add: element_cls_def g)
    show ?thesis using that(2,3) by (simp add: renderElement_def st cl g cong: if_cong)
  qed
  have c: "\<exists>outs. map renderElement els = map Inr outs \<and> body = join nl outs"
    if "render_body (Some (JArr els)) = Inr body"
    using that by (auto simp: render_body_def bind_eq_Inr sequence_eq_Inr)
  from a b c show ?thesis by blast
qed

theorem top_level_elements_only_witness:
  "renderElement (JObj [(''type'', JStr ''container''), (''children'', JArr [flat_button])])
     = Inr [] \<and>
   renderElement (JObj [(''type'', JStr ''container''), (''children'', JArr [flat_button])])
     = renderElement (JObj [(''type'', JStr ''container'')]) \<and>
   render_body (Some (JArr [markup_text, example_button])) =
     Inr (''<div  style='' @ dq @ default_style @ dq @ ''><b>1 < 2 & 3</b></div>'' @ nl @
          ''<button  style='' @ dq @ default_style @ dq @ ''>Click Me!</button>'') \<and>
   (\<exists>outs. map renderElement [markup_text, example_button] = map Inr outs \<and>
      ''<div  style='' @ dq @ default_style @ dq @ ''><b>1 < 2 & 3</b></div>'' @ nl @
      ''<button  style='' @ dq @ default_style @ dq @ ''>Click Me!</button>'' = join nl outs)"
proof -
  have r: "renderElement (JObj [(''type'', JStr ''container''), (''children'', JArr [flat_button])])
     = Inr []"
    by (simp add: eval_defs)
  have same: "\<forall>k. k \<noteq> ''children'' \<longrightarrow>
      get (JObj [(''type'', JStr ''container''), (''children'', JArr [flat_button])]) k =
      get (JObj [(''type'', JStr ''container'')]) k"
    by simp
  have b: "render_body (Some (JArr [markup_text, example_button])) =
     Inr (''<div  style='' @ dq @ default_style @ dq @ ''><b>1 < 2 & 3</b></div>'' @ nl @
          ''<button  style='' @ dq @ default_style @ dq @ ''>Click Me!</button>'')"
    by (simp add: markup_text_def example_button_def default_style_def eval_defs)
  show ?thesis
    using r same b
      top_level_elements_only
        [of "JObj [(''type'', JStr ''container''), (''children'', JArr [flat_button])]" "[]"
            "JObj [(''type'', JStr ''container'')]" "[markup_text, example_button]"
            "''<div  style='' @ dq @ default_style @ dq @ ''><b>1 < 2 & 3</b></div>'' @ nl @
             ''<button  style='' @ dq @ default_style @ dq @ ''>Click Me!</button>''"]
    by simp
qed

section \<open>Properties of the server\<close>

text \<open>
  C4 does not hold as specified: nothing validates the request. For
  \<^verbatim>\<open>{"width":50,"height":200,"elements":[]}\<close> the handler compiles the page, sets a
  viewport of 50 by 200, takes the screenshot and answers with the image.
\<close>

theorem narrow_canvas_counterexample:
  "render_handler (ok_browser sample_png) narrow_doc =
     ([Connect, NewPage, SetViewport (JNum 50) (JNum 200), SetContent narrow_html,
       Screenshot, ClosePage],
      Responded (JObj [(''image_base64'', JStr ''data:image/png;base64,iVBORw0KGgo='')]))"
  by (simp add: render_handler_def request_doc_def browser_session_def ok_browser_def
      narrow_doc_def narrow_html_def sample_png_def eval_defs)

text \<open>
  C4, as the code has it: there is no validation and no bound on the canvas. For every
  (safe) integer width and height, inside 100 to 4000 or not, a document without elements
  compiles to a page whose \<^verbatim>\<open>body\<close> rule has that width and height, and the handler
  sets the viewport to them and, when the browser calls succeed, answers with the
  image.
\<close>

theorem canvas_unbounded:
  assumes "safe_integer w" and "safe_integer h"
  shows "renderDSLtoHTML
     (request_doc (JObj [(''width'', JNum w), (''height'', JNum h), (''elements'', JArr [])])) =
     Inr (html_head (number_to_string w) (number_to_string h) @ [] @ html_tail []) \<and>
   render_handler (ok_browser png)
     (JObj [(''width'', JNum w), (''height'', JNum h), (''elements'', JArr [])]) =
     ([Connect, NewPage, SetViewport (JNum w) (JNum h),
       SetContent (html_head (number_to_string w) (number_to_string h) @ [] @ html_tail []),
       Screenshot, ClosePage],
      Responded (JObj [(''image_base64'', JStr (''data:image/png;base64,'' @ png))]))"
  by (simp add: render_handler_def request_doc_def browser_session_def ok_browser_def
      renderDSLtoHTML_def render_body_def)

theorem canvas_unbounded_witness:
  "safe_integer 50 \<and> safe_integer 200 \<and> safe_integer 99999 \<and> safe_integer (- 3) \<and>
   renderDSLtoHTML
     (request_doc (JObj [(''width'', JNum 50), (''height'', JNum 200), (''elements'', JArr [])])) =
     Inr (html_head ''50'' ''200'' @ [] @ html_tail []) \<and>
   renderDSLtoHTML
     (request_doc (JObj [(''width'', JNum 99999), (''height'', JNum (- 3)), (''elements'', JArr [])])) =
     Inr (html_head ''99999'' ''-3'' @ [] @ html_tail [])"
proof -
  have a: "safe_integer 50" and b: "safe_integer 200" and c: "safe_integer 99999"
    and d: "safe_integer (- 3)"
    by (simp_all add: safe_integer_def)
  show ?thesis
    using a b c d canvas_unbounded [OF a b, of sample_png] canvas_unbounded [OF c d, of sample_png]
    by (simp add: number_to_string_def digits.simps)
qed

text \<open>
  C1 does not hold as specified: the second of two identical requests connects to
  the browser and takes a screenshot again, and its response has no content hash.
\<close>

theorem second_render_counterexample:
  "serve [(ok_browser sample_png, example_doc), (ok_browser sample_png, example_doc)] ! 1 =
     ([Connect, NewPage, SetViewport (JNum 400) (JNum 200), SetContent example_html,
       Screenshot, ClosePage],
      Responded (JObj [(''image_base64'', JStr ''data:image/png;base64,iVBORw0KGgo='')]))"
  by (simp add: serve_def render_handler_def request_doc_def browser_session_def ok_browser_def
      example_doc_def example_button_def example_html_def sample_png_def eval_defs)

text \<open>
  C1, as the code has it: there is no cache and no content hash. When the same request
  is rendered twice and both renders answer, both compiled the same HTML and each made
  the whole sequence of browser calls for itself, from \<^verbatim>\<open>connect\<close> to
  \<^verbatim>\<open>page.close\<close>; each response holds the image of its own screenshot under
  \<^verbatim>\<open>image_base64\<close> and nothing else.
\<close>

theorem render_twice_no_cache:
  assumes "serve [(b1, body), (b2, body)] = [(tr1, Responded r1), (tr2, Responded r2)]"
  shows "\<exists>html p1 p2.
      renderDSLtoHTML (request_doc body) = Inr html \<and>
      tr1 = [Connect, NewPage,
             SetViewport (or_default (get body ''width'') (JNum 800))
                         (or_default (get body ''height'') (JNum 600)),
             SetContent html, Screenshot, ClosePage] \<and>
      tr2 = tr1 \<and>
      screenshot_png b1 = Some p1 \<and> screenshot_png b2 = Some p2 \<and>
      r1 = JObj [(''image_base64'', JStr (''data:image/png;base64,'' @ p1))] \<and>
      r2 = JObj [(''image_base64'', JStr (''data:image/png;base64,'' @ p2))] \<and>
      get r1 ''content_hash'' = None \<and> get r2 ''content_hash'' = None"
proof -
  from assms have h1: "render_handler b1 body = (tr1, Responded r1)"
    and h2: "render_handler b2 body = (tr2, Responded r2)"
    by (simp_all add: serve_def)
  from h1 obtain html where html: "renderDSLtoHTML (request_doc body) = Inr html"
    by (auto simp: render_handler_def split: if_splits sum.splits)
  have one: "\<exists>p. tr = [Connect, NewPage,
             SetViewport (or_default (get body ''width'') (JNum 800))
                         (or_default (get body ''height'') (JNum 600)),
             SetContent html, Screenshot, ClosePage] \<and>
          screenshot_png b = Some p \<and>
          r = JObj [(''image_base64'', JStr (''data:image/png;base64,'' @ p))]"
    if "render_handler b body = (tr, Responded r)" for b tr r
    using that html
    by (auto simp: render_handler_def browser_session_def split: if_splits option.splits)
  from one [OF h1] one [OF h2] html show ?thesis by auto
qed

theorem render_twice_no_cache_witness:
  "serve [(ok_browser sample_png, example_doc), (ok_browser ''AAAA'', example_doc)] =
     [([Connect, NewPage, SetViewport (JNum 400) (JNum 200), SetContent example_html,
        Screenshot, ClosePage],
       Responded (JObj [(''image_base64'', JStr ''data:image/png;base64,iVBORw0KGgo='')])),
      ([Connect, NewPage, SetViewport (JNum 400) (JNum 200), SetContent example_html,
        Screenshot, ClosePage],
       Responded (JObj [(''image_base64'', JStr ''data:image/png;base64,AAAA'')]))] \<and>
   (\<exists>html. renderDSLtoHTML (request_doc example_doc) = Inr html)"
proof -
  have s: "serve [(ok_browser sample_png, example_doc), (ok_browser ''AAAA'', example_doc)] =
     [([Connect, NewPage, SetViewport (JNum 400) (JNum 200), SetContent example_html,
        Screenshot, ClosePage],
       Responded (JObj [(''image_base64'', JStr ''data:image/png;base64,iVBORw0KGgo='')])),
      ([Connect, NewPage, SetViewport (JNum 400) (JNum 200), SetContent example_html,
        Screenshot, ClosePage],
       Responded (JObj [(''image_base64'', JStr ''data:image/png;base64,AAAA'')]))]"
    by (simp add: serve_def render_handler_def request_doc_def browser_session_def ok_browser_def
      example_doc_def example_button_def example_html_def sample_png_def eval_defs)
  from render_twice_no_cache [OF s] s show ?thesis by blast
qed

text \<open>
  C7 fails on the code: \<^verbatim>\<open>page.close()\<close> is a plain statement after the screenshot,
  with no \<^verbatim>\<open>try\<close>/\<^verbatim>\<open>finally\<close> around the calls before it. When
  \<^verbatim>\<open>page.screenshot\<close> or \<^verbatim>\<open>page.setContent\<close> rejects, the handler rejects at
  that call: the page was opened and is never closed.
\<close>

theorem page_left_open_on_failure:
  "render_handler ((ok_browser sample_png)\<lparr>screenshot_png := None\<rparr>) example_doc =
     ([Connect, NewPage, SetViewport (JNum 400) (JNum 200), SetContent example_html, Screenshot],
      Rejected (BrowserError ''screenshot'')) \<and>
   render_handler ((ok_browser sample_png)\<lparr>setContent_ok := False\<rparr>) example_doc =
     ([Connect, NewPage, SetViewport (JNum 400) (JNum 200), SetContent example_html],
      Rejected (BrowserError ''setContent'')) \<and>
   ClosePage \<notin> set (fst (render_handler ((ok_browser sample_png)\<lparr>screenshot_png := None\<rparr>)
                              example_doc)) \<and>
   ClosePage \<notin> set (fst (render_handler ((ok_browser sample_png)\<lparr>setContent_ok := False\<rparr>)
                              example_doc))"
  by (simp add: render_handler_def request_doc_def browser_session_def ok_browser_def
      example_doc_def example_button_def example_html_def sample_png_def eval_defs)

text \<open>
  C2 does not hold as specified: six requests served at the same time can each
  have connected and opened a page before any of them closes its page, which makes six
  sessions busy at once, more than the five of the specified default; none of them is
  refused.
\<close>

theorem pool_bound_counterexample:
  "step\<^sup>*\<^sup>* (after_calls 0 six_requests) (after_calls 2 six_requests) \<and>
   busy (after_calls 2 six_requests) = 6 \<and>
   \<not> busy (after_calls 2 six_requests) \<le> 5 \<and>
   snd (render_handler (ok_browser sample_png) example_doc) =
     Responded (JObj [(''image_base64'', JStr ''data:image/png;base64,iVBORw0KGgo='')])"
proof -
  have r: "render_handler (ok_browser sample_png) example_doc =
     ([Connect, NewPage, SetViewport (JNum 400) (JNum 200), SetContent example_html,
       Screenshot, ClosePage],
      Responded (JObj [(''image_base64'', JStr ''data:image/png;base64,iVBORw0KGgo='')]))"
    by (simp add: render_handler_def request_doc_def browser_session_def ok_browser_def
      example_doc_def example_button_def example_html_def sample_png_def eval_defs)
  have "\<forall>(b, body) \<in> set six_requests. \<exists>r. snd (render_handler b body) = Responded r"
    by (simp add: six_requests_def r)
  then have "busy (after_calls 2 six_requests) = length six_requests"
    by (rule busy_after_two_calls)
  then have b: "busy (after_calls 2 six_requests) = 6"
    by (simp add: six_requests_def)
  have s: "step\<^sup>*\<^sup>* (after_calls 0 six_requests) (after_calls 2 six_requests)"
    by (rule after_calls_reachable) simp
  from s b r show ?thesis by simp
qed

text \<open>
  C2, as the code has it: there is no pool, no bound and no time limit. Every request
  calls \<^verbatim>\<open>puppeteer.connect\<close> for itself, so for any number of requests whose browser
  calls succeed there is a schedule in which all of them have connected and hold an
  open page at the same time, as many busy sessions as there are requests; from there
  every request can run to its end, and every one of them answers with its image.
\<close>

theorem sessions_unbounded:
  assumes "\<forall>(b, body) \<in> set reqs. \<exists>r. snd (render_handler b body) = Responded r"
  shows "step\<^sup>*\<^sup>* (after_calls 0 reqs) (after_calls 2 reqs) \<and>
         busy (after_calls 2 reqs) = length reqs \<and>
         step\<^sup>*\<^sup>* (after_calls 2 reqs) (after_calls 6 reqs) \<and>
         after_calls 6 reqs = map (\<lambda>req. (fst (render_handler (fst req) (snd req)), [])) reqs"
proof -
  have a: "step\<^sup>*\<^sup>* (after_calls 0 reqs) (after_calls 2 reqs)"
    by (rule after_calls_reachable) simp
  have b: "busy (after_calls 2 reqs) = length reqs"
    using assms by (rule busy_after_two_calls)
  have c: "step\<^sup>*\<^sup>* (after_calls 2 reqs) (after_calls 6 reqs)"
    by (rule after_calls_reachable) simp
  have "calls_split 6 z = (fst (render_handler (fst z) (snd z)), [])" if "z \<in> set reqs" for z
  proof -
    obtain b body where z: "z = (b, body)" by (cases z)
    with that assms obtain r where "snd (render_handler b body) = Responded r" by auto
    from responded_opens_page(2) [OF this] show ?thesis
      by (simp add: calls_split_def z)
  qed
  then have d: "after_calls 6 reqs =
      map (\<lambda>req. (fst (render_handler (fst req) (snd req)), [])) reqs"
    by (simp add: after_calls_def)
  from a b c d show ?thesis by blast
qed

theorem sessions_unbounded_witness:
  "(\<exists>r. snd (render_handler (ok_browser sample_png) example_doc) = Responded r) \<and>
   (\<exists>r. snd (render_handler (ok_browser ''AAAA'') example_doc) = Responded r) \<and>
   step\<^sup>*\<^sup>* (after_calls 0 [(ok_browser sample_png, example_doc), (ok_browser ''AAAA'', example_doc)])
        (after_calls 2 [(ok_browser sample_png, example_doc), (ok_browser ''AAAA'', example_doc)]) \<and>
   busy (after_calls 2 [(ok_browser sample_png, example_doc), (ok_browser ''AAAA'', example_doc)]) = 2"
proof -
  have h: "\<forall>(b, body) \<in> set [(ok_browser sample_png, example_doc), (ok_browser ''AAAA'', example_doc)].
      \<exists>r. snd (render_handler b body) = Responded r"
    by (simp add: render_handler_def request_doc_def browser_session_def ok_browser_def
      example_doc_def example_doc_def example_button_def eval_defs)
  from sessions_unbounded [OF h] h show ?thesis by simp
qed

end
